theory Spec2Isabelle
  imports Main "HOL-Library.Word"
begin

unbundle bit_operations_syntax

section \<open>The vendor module\<close>

text \<open>
  \<^verbatim>\<open>aardvark_gpio.py\<close> drives the adapter through the vendor module
  \<^verbatim>\<open>aardvark_py\<close> (imported as \<^verbatim>\<open>aa\<close>), which is not part of the
  repository. Its constants and calls are modelled here from the specification;
  everything after this section is the code of \<^verbatim>\<open>aardvark_gpio.py\<close>.
  Python integers are \<open>int\<close>; a value that is \<^verbatim>\<open>None\<close> or an integer is
  \<open>int option\<close>.
\<close>

text \<open>
  Modelled from the spec: the pin constants \<^verbatim>\<open>aa.AA_GPIO_*\<close> of the vendor
  module, which is not part of the repository. The spec (sections 3 and 9, glossary)
  makes each a fixed mask with exactly one bit set out of 8, the six pins in the order
  SCL, SDA, MISO, SCK, MOSI, SS mapped to their bit positions; the source (lines 54-59)
  numbers them 0 to 5.
\<close>

definition AA_GPIO_SCL :: int where "AA_GPIO_SCL = 0x01"
definition AA_GPIO_SDA :: int where "AA_GPIO_SDA = 0x02"
definition AA_GPIO_MISO :: int where "AA_GPIO_MISO = 0x04"
definition AA_GPIO_SCK :: int where "AA_GPIO_SCK = 0x08"
definition AA_GPIO_MOSI :: int where "AA_GPIO_MOSI = 0x10"
definition AA_GPIO_SS :: int where "AA_GPIO_SS = 0x20"

text \<open>
  Modelled from the spec: the mode constant \<^verbatim>\<open>aa.AA_CONFIG_GPIO_ONLY\<close> of the
  vendor module; the source (line 127) gives its value as 0x00.
\<close>

definition AA_CONFIG_GPIO_ONLY :: int where "AA_CONFIG_GPIO_ONLY = 0x00"

text \<open>
  What the program does to the outside, in order: each call of the vendor module with
  its arguments, and each blocking sleep with its length in milliseconds.
\<close>

datatype event =
    FindDevices
  | Open int
  | Version "int option"
  | Configure "int option" int
  | GpioDirection "int option" int
  | GpioPullup "int option" int
  | GpioGet "int option"
  | GpioSet "int option" int
  | Close "int option"
  | Sleep int

text \<open>
  Modelled from the spec: the adapter behind the vendor module, as the simulated device
  of the spec's sections 1, 6 and 8. Enumeration reports \<open>adapters\<close> devices; opening
  port \<open>p\<close> returns \<open>open_answer p\<close> (a positive handle, or the vendor's error code);
  the mode, direction, pull-up and GPIO bit registers are 8-bit fields that a write
  replaces whole and a read returns. The spec gives the vendor calls no handle check
  (that is the controller's business there), so the simulated calls record the handle
  they are given and do not interpret it. \<open>sleep_limit\<close> is the longest sleep, in
  milliseconds, that the platform's \<^verbatim>\<open>time.sleep\<close> accepts.
\<close>

record world =
  adapters :: int
  open_answer :: "int \<Rightarrow> int"
  mode_reg :: "8 word"
  direction_reg :: "8 word"
  pullup_reg :: "8 word"
  gpio_reg :: "8 word"
  sleep_limit :: int
  events :: "event list"

definition emit :: "event \<Rightarrow> world \<Rightarrow> world" where
  "emit e w = w\<lparr>events := events w @ [e]\<rparr>"

definition aa_find_devices_ext :: "world \<Rightarrow> int \<times> world" where
  "aa_find_devices_ext w = (adapters w, emit FindDevices w)"

definition aa_open :: "int \<Rightarrow> world \<Rightarrow> int \<times> world" where
  "aa_open p w = (open_answer w p, emit (Open p) w)"

definition aa_version :: "int option \<Rightarrow> world \<Rightarrow> world" where
  "aa_version h w = emit (Version h) w"

definition aa_configure :: "int option \<Rightarrow> int \<Rightarrow> world \<Rightarrow> world" where
  "aa_configure h m w = emit (Configure h m) (w\<lparr>mode_reg := word_of_int m\<rparr>)"

definition aa_gpio_direction :: "int option \<Rightarrow> int \<Rightarrow> world \<Rightarrow> world" where
  "aa_gpio_direction h m w = emit (GpioDirection h m) (w\<lparr>direction_reg := word_of_int m\<rparr>)"

definition aa_gpio_pullup :: "int option \<Rightarrow> int \<Rightarrow> world \<Rightarrow> world" where
  "aa_gpio_pullup h m w = emit (GpioPullup h m) (w\<lparr>pullup_reg := word_of_int m\<rparr>)"

definition aa_gpio_get :: "int option \<Rightarrow> world \<Rightarrow> int \<times> world" where
  "aa_gpio_get h w = (uint (gpio_reg w), emit (GpioGet h) w)"

definition aa_gpio_set :: "int option \<Rightarrow> int \<Rightarrow> world \<Rightarrow> world" where
  "aa_gpio_set h v w = emit (GpioSet h v) (w\<lparr>gpio_reg := word_of_int v\<rparr>)"

definition aa_close :: "int option \<Rightarrow> world \<Rightarrow> world" where
  "aa_close h w = emit (Close h) w"

section \<open>Strings\<close>

text \<open>
  A Python \<^verbatim>\<open>str\<close> is the sequence of its code points, and two strings are equal
  when their code points are. \<open>str_of\<close> writes an ASCII literal of the source as such a
  sequence.
\<close>

type_synonym str = "nat list"

definition str_of :: "string \<Rightarrow> str" where
  "str_of s = map of_char s"

section \<open>Exceptions\<close>

text \<open>
  One constructor for each \<^verbatim>\<open>raise\<close> of the source, named by its Python class and
  carrying the values its message prints, and one for each exception of a built-in the
  source calls: a failed dictionary lookup, a failed \<^verbatim>\<open>list.index\<close>, and
  \<^verbatim>\<open>time.sleep\<close>, which raises ValueError for a negative length and
  OverflowError for one beyond the platform's range. \<open>VendorError\<close> is an exception
  raised inside a call of the vendor module, with the name of its class.
\<close>

datatype error =
    ValueError_pin int
  | ValueError_pin_name str
  | TypeError_pin
  | RuntimeError_no_adapters
  | ValueError_port int int
  | RuntimeError_open int int
  | KeyError str
  | ValueError_index str
  | ValueError_sleep int
  | OverflowError_sleep int
  | VendorError string

text \<open>
  The error kinds of the spec's section 7, and the kind each exception of the source
  stands for there: a bad pin selector or port index is InvalidArgument, no adapter is
  DeviceNotFound, a non-positive handle is DeviceOpenFailed with the vendor's code, and
  a call of the vendor module that fails is DeviceIOError. The source has no exception
  for NotOpen. The exceptions of the built-ins have no kind in the spec.
\<close>

datatype error_kind =
    InvalidArgument
  | DeviceNotFound
  | DeviceOpenFailed int
  | NotOpen
  | DeviceIOError

fun kind_of :: "error \<Rightarrow> error_kind option" where
  "kind_of (ValueError_pin n) = Some InvalidArgument"
| "kind_of (ValueError_pin_name s) = Some InvalidArgument"
| "kind_of TypeError_pin = Some InvalidArgument"
| "kind_of RuntimeError_no_adapters = Some DeviceNotFound"
| "kind_of (ValueError_port p n) = Some InvalidArgument"
| "kind_of (RuntimeError_open p code) = Some (DeviceOpenFailed code)"
| "kind_of (KeyError s) = None"
| "kind_of (ValueError_index s) = None"
| "kind_of (ValueError_sleep ms) = None"
| "kind_of (OverflowError_sleep ms) = None"
| "kind_of (VendorError cls) = Some DeviceIOError"

text \<open>A call fails with kind \<open>k\<close> when it raises an exception of that kind.\<close>

definition fails_with :: "error_kind \<Rightarrow> error + 'a \<Rightarrow> bool" where
  "fails_with k r = (case r of Inl e \<Rightarrow> kind_of e = Some k | Inr y \<Rightarrow> False)"

section \<open>Built-ins of Python the source calls\<close>

text \<open>
  \<^verbatim>\<open>str.upper\<close> maps each code point on its own to one, two or three code points
  (the unconditional upper-case mappings of the Unicode character database), here with
  the tables of Unicode 14.0, which CPython 3.11 carries. \<open>upper_runs\<close> holds the code
  points that go to a single other code point, in runs: \<open>(lo, hi, stride, to)\<close>
  stands for \<open>lo\<close>, \<open>lo + stride\<close>, and so on up to \<open>hi\<close>, going to \<open>to\<close>,
  \<open>to + stride\<close>, and so on. \<open>upper_multi\<close> holds the code points that go to several.
  No code point is in two runs, or in a run and in \<open>upper_multi\<close>; every code point in
  neither stays as it is.
\<close>

definition upper_runs :: "(nat \<times> nat \<times> nat \<times> nat) list" where
  "upper_runs =
     [(0x61, 0x7A, 1, 0x41), (0xB5, 0xB5, 1, 0x39C), (0xE0, 0xF6, 1, 0xC0),
      (0xF8, 0xFE, 1, 0xD8), (0xFF, 0xFF, 1, 0x178), (0x101, 0x12F, 2, 0x100),
      (0x131, 0x131, 1, 0x49), (0x133, 0x137, 2, 0x132), (0x13A, 0x148, 2, 0x139),
      (0x14B, 0x177, 2, 0x14A), (0x17A, 0x17E, 2, 0x179), (0x17F, 0x17F, 1, 0x53),
      (0x180, 0x180, 1, 0x243), (0x183, 0x185, 2, 0x182), (0x188, 0x188, 1, 0x187),
      (0x18C, 0x18C, 1, 0x18B), (0x192, 0x192, 1, 0x191), (0x195, 0x195, 1, 0x1F6),
      (0x199, 0x199, 1, 0x198), (0x19A, 0x19A, 1, 0x23D), (0x19E, 0x19E, 1, 0x220),
      (0x1A1, 0x1A5, 2, 0x1A0), (0x1A8, 0x1A8, 1, 0x1A7), (0x1AD, 0x1AD, 1, 0x1AC),
      (0x1B0, 0x1B0, 1, 0x1AF), (0x1B4, 0x1B6, 2, 0x1B3), (0x1B9, 0x1B9, 1, 0x1B8),
      (0x1BD, 0x1BD, 1, 0x1BC), (0x1BF, 0x1BF, 1, 0x1F7), (0x1C5, 0x1C5, 1, 0x1C4),
      (0x1C6, 0x1C6, 1, 0x1C4), (0x1C8, 0x1C8, 1, 0x1C7), (0x1C9, 0x1C9, 1, 0x1C7),
      (0x1CB, 0x1CB, 1, 0x1CA), (0x1CC, 0x1CC, 1, 0x1CA), (0x1CE, 0x1DC, 2, 0x1CD),
      (0x1DD, 0x1DD, 1, 0x18E), (0x1DF, 0x1EF, 2, 0x1DE), (0x1F2, 0x1F2, 1, 0x1F1),
      (0x1F3, 0x1F3, 1, 0x1F1), (0x1F5, 0x1F5, 1, 0x1F4), (0x1F9, 0x21F, 2, 0x1F8),
      (0x223, 0x233, 2, 0x222), (0x23C, 0x23C, 1, 0x23B), (0x23F, 0x240, 1, 0x2C7E),
      (0x242, 0x242, 1, 0x241), (0x247, 0x24F, 2, 0x246), (0x250, 0x250, 1, 0x2C6F),
      (0x251, 0x251, 1, 0x2C6D), (0x252, 0x252, 1, 0x2C70), (0x253, 0x253, 1, 0x181),
      (0x254, 0x254, 1, 0x186), (0x256, 0x257, 1, 0x189), (0x259, 0x259, 1, 0x18F),
      (0x25B, 0x25B, 1, 0x190), (0x25C, 0x25C, 1, 0xA7AB), (0x260, 0x260, 1, 0x193),
      (0x261, 0x261, 1, 0xA7AC), (0x263, 0x263, 1, 0x194), (0x265, 0x265, 1, 0xA78D),
      (0x266, 0x266, 1, 0xA7AA), (0x268, 0x268, 1, 0x197), (0x269, 0x269, 1, 0x196),
      (0x26A, 0x26A, 1, 0xA7AE), (0x26B, 0x26B, 1, 0x2C62), (0x26C, 0x26C, 1, 0xA7AD),
      (0x26F, 0x26F, 1, 0x19C), (0x271, 0x271, 1, 0x2C6E), (0x272, 0x272, 1, 0x19D),
      (0x275, 0x275, 1, 0x19F), (0x27D, 0x27D, 1, 0x2C64), (0x280, 0x280, 1, 0x1A6),
      (0x282, 0x282, 1, 0xA7C5), (0x283, 0x283, 1, 0x1A9), (0x287, 0x287, 1, 0xA7B1),
      (0x288, 0x288, 1, 0x1AE), (0x289, 0x289, 1, 0x244), (0x28A, 0x28B, 1, 0x1B1),
      (0x28C, 0x28C, 1, 0x245), (0x292, 0x292, 1, 0x1B7), (0x29D, 0x29D, 1, 0xA7B2),
      (0x29E, 0x29E, 1, 0xA7B0), (0x345, 0x345, 1, 0x399), (0x371, 0x373, 2, 0x370),
      (0x377, 0x377, 1, 0x376), (0x37B, 0x37D, 1, 0x3FD), (0x3AC, 0x3AC, 1, 0x386),
      (0x3AD, 0x3AF, 1, 0x388), (0x3B1, 0x3C1, 1, 0x391), (0x3C2, 0x3C2, 1, 0x3A3),
      (0x3C3, 0x3CB, 1, 0x3A3), (0x3CC, 0x3CC, 1, 0x38C), (0x3CD, 0x3CE, 1, 0x38E),
      (0x3D0, 0x3D0, 1, 0x392), (0x3D1, 0x3D1, 1, 0x398), (0x3D5, 0x3D5, 1, 0x3A6),
      (0x3D6, 0x3D6, 1, 0x3A0), (0x3D7, 0x3D7, 1, 0x3CF), (0x3D9, 0x3EF, 2, 0x3D8),
      (0x3F0, 0x3F0, 1, 0x39A), (0x3F1, 0x3F1, 1, 0x3A1), (0x3F2, 0x3F2, 1, 0x3F9),
      (0x3F3, 0x3F3, 1, 0x37F), (0x3F5, 0x3F5, 1, 0x395), (0x3F8, 0x3F8, 1, 0x3F7),
      (0x3FB, 0x3FB, 1, 0x3FA), (0x430, 0x44F, 1, 0x410), (0x450, 0x45F, 1, 0x400),
      (0x461, 0x481, 2, 0x460), (0x48B, 0x4BF, 2, 0x48A), (0x4C2, 0x4CE, 2, 0x4C1),
      (0x4CF, 0x4CF, 1, 0x4C0), (0x4D1, 0x52F, 2, 0x4D0), (0x561, 0x586, 1, 0x531),
      (0x10D0, 0x10FA, 1, 0x1C90), (0x10FD, 0x10FF, 1, 0x1CBD),
      (0x13F8, 0x13FD, 1, 0x13F0), (0x1C80, 0x1C80, 1, 0x412), (0x1C81, 0x1C81, 1, 0x414),
      (0x1C82, 0x1C82, 1, 0x41E), (0x1C83, 0x1C84, 1, 0x421), (0x1C85, 0x1C85, 1, 0x422),
      (0x1C86, 0x1C86, 1, 0x42A), (0x1C87, 0x1C87, 1, 0x462), (0x1C88, 0x1C88, 1, 0xA64A),
      (0x1D79, 0x1D79, 1, 0xA77D), (0x1D7D, 0x1D7D, 1, 0x2C63),
      (0x1D8E, 0x1D8E, 1, 0xA7C6), (0x1E01, 0x1E95, 2, 0x1E00),
      (0x1E9B, 0x1E9B, 1, 0x1E60), (0x1EA1, 0x1EFF, 2, 0x1EA0),
      (0x1F00, 0x1F07, 1, 0x1F08), (0x1F10, 0x1F15, 1, 0x1F18),
      (0x1F20, 0x1F27, 1, 0x1F28), (0x1F30, 0x1F37, 1, 0x1F38),
      (0x1F40, 0x1F45, 1, 0x1F48), (0x1F51, 0x1F57, 2, 0x1F59),
      (0x1F60, 0x1F67, 1, 0x1F68), (0x1F70, 0x1F71, 1, 0x1FBA),
      (0x1F72, 0x1F75, 1, 0x1FC8), (0x1F76, 0x1F77, 1, 0x1FDA),
      (0x1F78, 0x1F79, 1, 0x1FF8), (0x1F7A, 0x1F7B, 1, 0x1FEA),
      (0x1F7C, 0x1F7D, 1, 0x1FFA), (0x1FB0, 0x1FB1, 1, 0x1FB8), (0x1FBE, 0x1FBE, 1, 0x399),
      (0x1FD0, 0x1FD1, 1, 0x1FD8), (0x1FE0, 0x1FE1, 1, 0x1FE8),
      (0x1FE5, 0x1FE5, 1, 0x1FEC), (0x214E, 0x214E, 1, 0x2132),
      (0x2170, 0x217F, 1, 0x2160), (0x2184, 0x2184, 1, 0x2183),
      (0x24D0, 0x24E9, 1, 0x24B6), (0x2C30, 0x2C5F, 1, 0x2C00),
      (0x2C61, 0x2C61, 1, 0x2C60), (0x2C65, 0x2C65, 1, 0x23A), (0x2C66, 0x2C66, 1, 0x23E),
      (0x2C68, 0x2C6C, 2, 0x2C67), (0x2C73, 0x2C73, 1, 0x2C72),
      (0x2C76, 0x2C76, 1, 0x2C75), (0x2C81, 0x2CE3, 2, 0x2C80),
      (0x2CEC, 0x2CEE, 2, 0x2CEB), (0x2CF3, 0x2CF3, 1, 0x2CF2),
      (0x2D00, 0x2D25, 1, 0x10A0), (0x2D27, 0x2D27, 1, 0x10C7),
      (0x2D2D, 0x2D2D, 1, 0x10CD), (0xA641, 0xA66D, 2, 0xA640),
      (0xA681, 0xA69B, 2, 0xA680), (0xA723, 0xA72F, 2, 0xA722),
      (0xA733, 0xA76F, 2, 0xA732), (0xA77A, 0xA77C, 2, 0xA779),
      (0xA77F, 0xA787, 2, 0xA77E), (0xA78C, 0xA78C, 1, 0xA78B),
      (0xA791, 0xA793, 2, 0xA790), (0xA794, 0xA794, 1, 0xA7C4),
      (0xA797, 0xA7A9, 2, 0xA796), (0xA7B5, 0xA7C3, 2, 0xA7B4),
      (0xA7C8, 0xA7CA, 2, 0xA7C7), (0xA7D1, 0xA7D1, 1, 0xA7D0),
      (0xA7D7, 0xA7D9, 2, 0xA7D6), (0xA7F6, 0xA7F6, 1, 0xA7F5),
      (0xAB53, 0xAB53, 1, 0xA7B3), (0xAB70, 0xABBF, 1, 0x13A0),
      (0xFF41, 0xFF5A, 1, 0xFF21), (0x10428, 0x1044F, 1, 0x10400),
      (0x104D8, 0x104FB, 1, 0x104B0), (0x10597, 0x105BB, 2, 0x10570),
      (0x10598, 0x105A0, 2, 0x10571), (0x105A4, 0x105B0, 2, 0x1057D),
      (0x105B4, 0x105B8, 2, 0x1058D), (0x105BC, 0x105BC, 1, 0x10595),
      (0x10CC0, 0x10CF2, 1, 0x10C80), (0x118C0, 0x118DF, 1, 0x118A0),
      (0x16E60, 0x16E7F, 1, 0x16E40), (0x1E922, 0x1E943, 1, 0x1E900)]"

definition upper_multi :: "(nat \<times> nat list) list" where
  "upper_multi =
     [(0xDF, [0x53, 0x53]), (0x149, [0x2BC, 0x4E]), (0x1F0, [0x4A, 0x30C]),
      (0x390, [0x399, 0x308, 0x301]), (0x3B0, [0x3A5, 0x308, 0x301]),
      (0x587, [0x535, 0x552]), (0x1E96, [0x48, 0x331]), (0x1E97, [0x54, 0x308]),
      (0x1E98, [0x57, 0x30A]), (0x1E99, [0x59, 0x30A]), (0x1E9A, [0x41, 0x2BE]),
      (0x1F50, [0x3A5, 0x313]), (0x1F52, [0x3A5, 0x313, 0x300]),
      (0x1F54, [0x3A5, 0x313, 0x301]), (0x1F56, [0x3A5, 0x313, 0x342]),
      (0x1F80, [0x1F08, 0x399]), (0x1F81, [0x1F09, 0x399]), (0x1F82, [0x1F0A, 0x399]),
      (0x1F83, [0x1F0B, 0x399]), (0x1F84, [0x1F0C, 0x399]), (0x1F85, [0x1F0D, 0x399]),
      (0x1F86, [0x1F0E, 0x399]), (0x1F87, [0x1F0F, 0x399]), (0x1F88, [0x1F08, 0x399]),
      (0x1F89, [0x1F09, 0x399]), (0x1F8A, [0x1F0A, 0x399]), (0x1F8B, [0x1F0B, 0x399]),
      (0x1F8C, [0x1F0C, 0x399]), (0x1F8D, [0x1F0D, 0x399]), (0x1F8E, [0x1F0E, 0x399]),
      (0x1F8F, [0x1F0F, 0x399]), (0x1F90, [0x1F28, 0x399]), (0x1F91, [0x1F29, 0x399]),
      (0x1F92, [0x1F2A, 0x399]), (0x1F93, [0x1F2B, 0x399]), (0x1F94, [0x1F2C, 0x399]),
      (0x1F95, [0x1F2D, 0x399]), (0x1F96, [0x1F2E, 0x399]), (0x1F97, [0x1F2F, 0x399]),
      (0x1F98, [0x1F28, 0x399]), (0x1F99, [0x1F29, 0x399]), (0x1F9A, [0x1F2A, 0x399]),
      (0x1F9B, [0x1F2B, 0x399]), (0x1F9C, [0x1F2C, 0x399]), (0x1F9D, [0x1F2D, 0x399]),
      (0x1F9E, [0x1F2E, 0x399]), (0x1F9F, [0x1F2F, 0x399]), (0x1FA0, [0x1F68, 0x399]),
      (0x1FA1, [0x1F69, 0x399]), (0x1FA2, [0x1F6A, 0x399]), (0x1FA3, [0x1F6B, 0x399]),
      (0x1FA4, [0x1F6C, 0x399]), (0x1FA5, [0x1F6D, 0x399]), (0x1FA6, [0x1F6E, 0x399]),
      (0x1FA7, [0x1F6F, 0x399]), (0x1FA8, [0x1F68, 0x399]), (0x1FA9, [0x1F69, 0x399]),
      (0x1FAA, [0x1F6A, 0x399]), (0x1FAB, [0x1F6B, 0x399]), (0x1FAC, [0x1F6C, 0x399]),
      (0x1FAD, [0x1F6D, 0x399]), (0x1FAE, [0x1F6E, 0x399]), (0x1FAF, [0x1F6F, 0x399]),
      (0x1FB2, [0x1FBA, 0x399]), (0x1FB3, [0x391, 0x399]), (0x1FB4, [0x386, 0x399]),
      (0x1FB6, [0x391, 0x342]), (0x1FB7, [0x391, 0x342, 0x399]), (0x1FBC, [0x391, 0x399]),
      (0x1FC2, [0x1FCA, 0x399]), (0x1FC3, [0x397, 0x399]), (0x1FC4, [0x389, 0x399]),
      (0x1FC6, [0x397, 0x342]), (0x1FC7, [0x397, 0x342, 0x399]), (0x1FCC, [0x397, 0x399]),
      (0x1FD2, [0x399, 0x308, 0x300]), (0x1FD3, [0x399, 0x308, 0x301]),
      (0x1FD6, [0x399, 0x342]), (0x1FD7, [0x399, 0x308, 0x342]),
      (0x1FE2, [0x3A5, 0x308, 0x300]), (0x1FE3, [0x3A5, 0x308, 0x301]),
      (0x1FE4, [0x3A1, 0x313]), (0x1FE6, [0x3A5, 0x342]), (0x1FE7, [0x3A5, 0x308, 0x342]),
      (0x1FF2, [0x1FFA, 0x399]), (0x1FF3, [0x3A9, 0x399]), (0x1FF4, [0x38F, 0x399]),
      (0x1FF6, [0x3A9, 0x342]), (0x1FF7, [0x3A9, 0x342, 0x399]), (0x1FFC, [0x3A9, 0x399]),
      (0xFB00, [0x46, 0x46]), (0xFB01, [0x46, 0x49]), (0xFB02, [0x46, 0x4C]),
      (0xFB03, [0x46, 0x46, 0x49]), (0xFB04, [0x46, 0x46, 0x4C]), (0xFB05, [0x53, 0x54]),
      (0xFB06, [0x53, 0x54]), (0xFB13, [0x544, 0x546]), (0xFB14, [0x544, 0x535]),
      (0xFB15, [0x544, 0x53B]), (0xFB16, [0x54E, 0x546]), (0xFB17, [0x544, 0x53D])]"

fun in_run :: "nat \<Rightarrow> nat \<times> nat \<times> nat \<times> nat \<Rightarrow> bool" where
  "in_run c (lo, hi, stride, to) = (lo \<le> c \<and> c \<le> hi \<and> (c - lo) mod stride = 0)"

definition upper_char :: "nat \<Rightarrow> nat list" where
  "upper_char c =
     (case find (in_run c) upper_runs of
        Some (lo, hi, stride, to) \<Rightarrow> [to + (c - lo)]
      | None \<Rightarrow> (case map_of upper_multi c of Some u \<Rightarrow> u | None \<Rightarrow> [c]))"

definition upper :: "str \<Rightarrow> str" where
  "upper s = concat (map upper_char s)"

text \<open>\<^verbatim>\<open>list.index\<close>: the first position of a value, ValueError when it is absent.\<close>

fun index_of :: "'a list \<Rightarrow> 'a \<Rightarrow> nat option" where
  "index_of [] x = None"
| "index_of (y # ys) x =
     (if y = x then Some 0 else (case index_of ys x of None \<Rightarrow> None | Some i \<Rightarrow> Some (Suc i)))"

text \<open>
  \<^verbatim>\<open>time.sleep(duration_ms / 1000.0)\<close>: raises for a negative length and for one
  beyond the platform's range, and blocks otherwise. How long the block really lasts
  is outside the model; the request is recorded.
\<close>

definition time_sleep_ms :: "int \<Rightarrow> world \<Rightarrow> (error + unit) \<times> world" where
  "time_sleep_ms ms w =
     (if ms < 0 then (Inl (ValueError_sleep ms), w)
      else if sleep_limit w < ms then (Inl (OverflowError_sleep ms), w)
      else (Inr (), emit (Sleep ms) w))"

text \<open>Truth of a handle in \<^verbatim>\<open>if self.handle:\<close>: None and 0 are false.\<close>

definition truthy :: "int option \<Rightarrow> bool" where
  "truthy h = (case h of None \<Rightarrow> False | Some n \<Rightarrow> n \<noteq> 0)"

section \<open>The class AardvarkGPIO\<close>

text \<open>
  The class attribute \<^verbatim>\<open>GPIO_PINS\<close> (lines 53-60): a dictionary, kept as an
  association list because the source relies on the order of its keys.
\<close>

definition GPIO_PINS :: "(str \<times> int) list" where
  "GPIO_PINS =
     [(str_of ''SCL'', AA_GPIO_SCL),
      (str_of ''SDA'', AA_GPIO_SDA),
      (str_of ''MISO'', AA_GPIO_MISO),
      (str_of ''SCK'', AA_GPIO_SCK),
      (str_of ''MOSI'', AA_GPIO_MOSI),
      (str_of ''SS'', AA_GPIO_SS)]"

text \<open>The instance attributes.\<close>

record AardvarkGPIO =
  port :: int
  verbose :: bool
  handle :: "int option"
  pin_name :: str
  pin_mask :: int
  pin_num :: int

text \<open>
  The \<^verbatim>\<open>pin\<close> argument of the constructor, by the two \<^verbatim>\<open>isinstance\<close> tests of
  lines 75 and 81: an instance of int (a bool is one: True is 1), an instance of str,
  or a value of any other type.
\<close>

datatype pin_selector = PinInt int | PinStr str | PinOther

text \<open>
  Every method takes the object and the world and returns what it raised or returned,
  with the world after it, and the object too where the method assigns an attribute.
  \<^verbatim>\<open>_log\<close> only prints; standard output is not modelled, so its calls leave no
  trace here.
\<close>

text \<open>\<^verbatim>\<open>_configure_gpio\<close> (lines 135-151).\<close>

definition private_configure_gpio :: "AardvarkGPIO \<Rightarrow> world \<Rightarrow> (error + unit) \<times> world" where
  "private_configure_gpio self w =
     (let w = aa_gpio_direction (handle self) (pin_mask self) w;
          w = aa_gpio_pullup (handle self) 0x00 w;
          (current, w) = aa_gpio_get (handle self) w;
          new_value = current AND NOT (pin_mask self);
          w = aa_gpio_set (handle self) new_value w
      in (Inr (), w))"

text \<open>\<^verbatim>\<open>_open\<close> (lines 100-133).\<close>

definition private_open :: "AardvarkGPIO \<Rightarrow> world \<Rightarrow> (error + unit) \<times> AardvarkGPIO \<times> world" where
  "private_open self w =
     (let (num_devices, w) = aa_find_devices_ext w in
      if num_devices = 0 then (Inl RuntimeError_no_adapters, self, w)
      else if port self \<ge> num_devices then (Inl (ValueError_port (port self) num_devices), self, w)
      else
        (let (h, w) = aa_open (port self) w;
             self = self\<lparr>handle := Some h\<rparr>
         in if h \<le> 0 then (Inl (RuntimeError_open (port self) h), self, w)
            else
              (let w = aa_version (handle self) w;
                   w = aa_configure (handle self) AA_CONFIG_GPIO_ONLY w;
                   (r, w) = private_configure_gpio self w
               in (r, self, w))))"

text \<open>The pin selection of \<^verbatim>\<open>__init__\<close> (lines 75-88).\<close>

definition select_pin :: "AardvarkGPIO \<Rightarrow> pin_selector \<Rightarrow> error + AardvarkGPIO" where
  "select_pin self pin =
     (case pin of
        PinInt n \<Rightarrow>
          if n < 0 \<or> n > 5 then Inl (ValueError_pin n)
          else
            (let pin_names = map fst GPIO_PINS;
                 name = pin_names ! nat n
             in case map_of GPIO_PINS name of
                  None \<Rightarrow> Inl (KeyError name)
                | Some m \<Rightarrow> Inr (self\<lparr>pin_name := name, pin_mask := m\<rparr>))
      | PinStr s \<Rightarrow>
          (let pin_upper = upper s in
           if pin_upper \<notin> set (map fst GPIO_PINS) then Inl (ValueError_pin_name s)
           else
             (case map_of GPIO_PINS pin_upper of
                None \<Rightarrow> Inl (KeyError pin_upper)
              | Some m \<Rightarrow> Inr (self\<lparr>pin_name := pin_upper, pin_mask := m\<rparr>)))
      | PinOther \<Rightarrow> Inl TypeError_pin)"

text \<open>
  \<^verbatim>\<open>__init__\<close> (lines 62-93). \<open>self\<close> is the object as allocated: the attributes
  the constructor has not assigned yet hold whatever \<open>self\<close> holds, and no path reads one
  before its assignment.
\<close>

definition init :: "AardvarkGPIO \<Rightarrow> int \<Rightarrow> pin_selector \<Rightarrow> bool \<Rightarrow> world \<Rightarrow> (error + unit) \<times> AardvarkGPIO \<times> world" where
  "init self port_arg pin verbose_arg w =
     (let self = self\<lparr>port := port_arg, verbose := verbose_arg, handle := None\<rparr> in
      case select_pin self pin of
        Inl e \<Rightarrow> (Inl e, self, w)
      | Inr self \<Rightarrow>
          (case index_of (map fst GPIO_PINS) (pin_name self) of
             None \<Rightarrow> (Inl (ValueError_index (pin_name self)), self, w)
           | Some i \<Rightarrow> private_open (self\<lparr>pin_num := int i\<rparr>) w))"

text \<open>\<^verbatim>\<open>set_high\<close> (lines 153-167).\<close>

definition set_high :: "AardvarkGPIO \<Rightarrow> world \<Rightarrow> (error + unit) \<times> world" where
  "set_high self w =
     (let (current, w) = aa_gpio_get (handle self) w;
          new_value = current AND NOT (pin_mask self);
          w = aa_gpio_set (handle self) new_value w;
          (actual, w) = aa_gpio_get (handle self) w
      in (Inr (), w))"

text \<open>\<^verbatim>\<open>set_low\<close> (lines 169-183).\<close>

definition set_low :: "AardvarkGPIO \<Rightarrow> world \<Rightarrow> (error + unit) \<times> world" where
  "set_low self w =
     (let (current, w) = aa_gpio_get (handle self) w;
          new_value = current OR pin_mask self;
          w = aa_gpio_set (handle self) new_value w;
          (actual, w) = aa_gpio_get (handle self) w
      in (Inr (), w))"

text \<open>\<^verbatim>\<open>get_state\<close> (lines 185-196).\<close>

definition get_state :: "AardvarkGPIO \<Rightarrow> world \<Rightarrow> (error + bool) \<times> world" where
  "get_state self w =
     (let (v, w) = aa_gpio_get (handle self) w;
          is_high = ((v AND pin_mask self) \<noteq> 0)
      in (Inr is_high, w))"

text \<open>\<^verbatim>\<open>pulse\<close> (lines 198-207): an exception of a step ends the method there.\<close>

definition pulse :: "AardvarkGPIO \<Rightarrow> int \<Rightarrow> world \<Rightarrow> (error + unit) \<times> world" where
  "pulse self duration_ms w =
     (case set_low self w of
        (Inl e, w) \<Rightarrow> (Inl e, w)
      | (Inr u, w) \<Rightarrow>
          (case time_sleep_ms duration_ms w of
             (Inl e, w) \<Rightarrow> (Inl e, w)
           | (Inr u, w) \<Rightarrow> set_high self w))"

text \<open>\<^verbatim>\<open>close\<close> (lines 209-214).\<close>

definition close :: "AardvarkGPIO \<Rightarrow> world \<Rightarrow> (error + unit) \<times> AardvarkGPIO \<times> world" where
  "close self w =
     (if truthy (handle self)
      then (let w = aa_close (handle self) w in (Inr (), self\<lparr>handle := None\<rparr>, w))
      else (Inr (), self, w))"

text \<open>\<^verbatim>\<open>__exit__\<close> (lines 220-222) and \<^verbatim>\<open>__del__\<close> (lines 224-226).\<close>

definition exit_method :: "AardvarkGPIO \<Rightarrow> world \<Rightarrow> (error + unit) \<times> AardvarkGPIO \<times> world" where
  "exit_method self w = close self w"

definition del_method :: "AardvarkGPIO \<Rightarrow> world \<Rightarrow> (error + unit) \<times> AardvarkGPIO \<times> world" where
  "del_method self w = close self w"

section \<open>The register calls of the vendor module as a parameter\<close>


text \<open>
  The four pin operations over such a vendor module, statement by statement as above;
  an exception of a vendor call ends the method there.
\<close>








section \<open>Notions the properties are stated with\<close>

text \<open>The physical bit of the controller's pin in the GPIO register.\<close>

definition pin_bit :: "AardvarkGPIO \<Rightarrow> world \<Rightarrow> bool" where
  "pin_bit self w = (gpio_reg w AND word_of_int (pin_mask self) \<noteq> 0)"

text \<open>A sequence of \<^verbatim>\<open>set_low()\<close> and \<^verbatim>\<open>set_high()\<close> calls on one controller.\<close>

datatype pin_op = SetLow | SetHigh

fun run_op :: "AardvarkGPIO \<Rightarrow> pin_op \<Rightarrow> world \<Rightarrow> (error + unit) \<times> world" where
  "run_op self SetLow w = set_low self w"
| "run_op self SetHigh w = set_high self w"

fun run_ops :: "AardvarkGPIO \<Rightarrow> pin_op list \<Rightarrow> world \<Rightarrow> (error + unit) \<times> world" where
  "run_ops self [] w = (Inr (), w)"
| "run_ops self (x # xs) w =
     (case run_op self x w of
        (Inl e, w) \<Rightarrow> (Inl e, w)
      | (Inr u, w) \<Rightarrow> run_ops self xs w)"

text \<open>
  An open controller: its handle is a positive integer and its pin name and mask are an
  entry of \<open>GPIO_PINS\<close>, as a constructor that returned leaves them.
\<close>

definition pin_selected :: "AardvarkGPIO \<Rightarrow> bool" where
  "pin_selected self = ((pin_name self, pin_mask self) \<in> set GPIO_PINS)"

definition is_open :: "AardvarkGPIO \<Rightarrow> bool" where
  "is_open self = (case handle self of None \<Rightarrow> False | Some h \<Rightarrow> 0 < h)"

definition open_controller :: "AardvarkGPIO \<Rightarrow> bool" where
  "open_controller self = (is_open self \<and> pin_selected self)"

text \<open>
  A selector the constructor accepts: an index 0 to 5, or a string whose
  \<^verbatim>\<open>upper()\<close> is a key of \<open>GPIO_PINS\<close>, as that of a pin name in any letter case is.
\<close>

definition valid_selector :: "pin_selector \<Rightarrow> bool" where
  "valid_selector pin =
     (case pin of
        PinInt n \<Rightarrow> 0 \<le> n \<and> n \<le> 5
      | PinStr s \<Rightarrow> upper s \<in> set (map fst GPIO_PINS)
      | PinOther \<Rightarrow> False)"

text \<open>
  Concrete inputs: an object as allocated, a bench with one adapter whose registers
  hold earlier values, and a controller open on pin SCK.
\<close>

definition fresh_object :: AardvarkGPIO where
  "fresh_object =
     \<lparr>port = 0, verbose = False, handle = None, pin_name = [], pin_mask = 0, pin_num = 0\<rparr>"

definition bench :: world where
  "bench =
     \<lparr>adapters = 1, open_answer = (\<lambda>p. 7), mode_reg = 0x03, direction_reg = 0x3F,
      pullup_reg = 0x3F, gpio_reg = 0xAD, sleep_limit = 86400000, events = []\<rparr>"

definition sck_controller :: AardvarkGPIO where
  "sck_controller =
     \<lparr>port = 0, verbose = False, handle = Some 7, pin_name = str_of ''SCK'',
      pin_mask = 0x08, pin_num = 3\<rparr>"

text \<open>
  A string names a pin case-insensitively, in the words of the spec, when it is one of
  the six names with each letter in upper or lower case. The names are made of ASCII
  capitals, and the lower-case letter of an ASCII capital is 32 code points above it.
\<close>

definition same_letter :: "nat \<Rightarrow> nat \<Rightarrow> bool" where
  "same_letter c n = (c = n \<or> c = n + 32)"

definition names_pin :: "str \<Rightarrow> bool" where
  "names_pin s = list_ex (list_all2 same_letter s) (map fst GPIO_PINS)"

text \<open>
  Two strings with a letter outside ASCII: \<^verbatim>\<open>m\<close>, the dotless small i (U+0131),
  \<^verbatim>\<open>s\<close>, \<^verbatim>\<open>o\<close>; and the one letter sharp s (U+00DF).
\<close>

definition dotless_miso :: str where
  "dotless_miso = [0x6D, 0x131, 0x73, 0x6F]"

definition sharp_s :: str where
  "sharp_s = [0xDF]"

text \<open>
  A selector the constructor refuses: an integer outside 0 to 5, a string whose
  \<^verbatim>\<open>upper()\<close> is no key of \<open>GPIO_PINS\<close>, or a value of another type.
\<close>

definition rejected_selector :: "pin_selector \<Rightarrow> bool" where
  "rejected_selector pin =
     (case pin of
        PinInt n \<Rightarrow> n < 0 \<or> 5 < n
      | PinStr s \<Rightarrow> upper s \<notin> set (map fst GPIO_PINS)
      | PinOther \<Rightarrow> True)"

text \<open>
  The pulse as the spec words it (section 4.1, Pulse): SetLow, suspend the calling
  context for \<open>durationMs\<close> milliseconds, then SetHigh. The suspension of the spec has
  no failure; it is recorded as the same \<open>Sleep\<close> event.
\<close>

definition suspend :: "int \<Rightarrow> world \<Rightarrow> world" where
  "suspend ms w = emit (Sleep ms) w"

definition pulse_spec :: "AardvarkGPIO \<Rightarrow> int \<Rightarrow> world \<Rightarrow> (error + unit) \<times> world" where
  "pulse_spec self duration_ms w =
     (case set_low self w of
        (Inl e, w) \<Rightarrow> (Inl e, w)
      | (Inr u, w) \<Rightarrow> set_high self (suspend duration_ms w))"

text \<open>
  The bench after the constructor has run on it for pin SCK, and the controller and
  the bench after \<^verbatim>\<open>close()\<close>.
\<close>

definition configured_bench :: world where
  "configured_bench = snd (snd (init fresh_object 0 (PinStr (str_of ''sck'')) False bench))"



section \<open>What each method does to the simulated device\<close>

lemmas pin_consts =
  AA_GPIO_SCL_def AA_GPIO_SDA_def AA_GPIO_MISO_def AA_GPIO_SCK_def AA_GPIO_MOSI_def
  AA_GPIO_SS_def

lemma length_GPIO_PINS: "length GPIO_PINS = 6"
  by (simp add: GPIO_PINS_def)

lemma reg_clear: "(word_of_int (uint r AND NOT m) :: 8 word) = r AND NOT (word_of_int m)"
  by (simp add: of_int_and_eq of_int_not_eq)

lemma reg_set: "(word_of_int (uint r OR m) :: 8 word) = r OR word_of_int m"
  by (simp add: of_int_or_eq)

lemma uint_and_int: "uint (r AND word_of_int m :: 8 word) = uint r AND m"
  by (rule bit_eqI) (auto simp add: bit_simps dest: bit_imp_le_length)

lemma reg_test: "(uint (r :: 8 word) AND m \<noteq> 0) = (r AND word_of_int m \<noteq> 0)"
  by (metis uint_and_int uint_0_iff)

lemma set_high_eq:
  "set_high c w =
     (Inr (), w\<lparr>gpio_reg := gpio_reg w AND NOT (word_of_int (pin_mask c)),
                events := events w @ [GpioGet (handle c),
                                      GpioSet (handle c) (uint (gpio_reg w) AND NOT (pin_mask c)),
                                      GpioGet (handle c)]\<rparr>)"
  by (simp add: set_high_def aa_gpio_get_def aa_gpio_set_def emit_def reg_clear)

lemma set_low_eq:
  "set_low c w =
     (Inr (), w\<lparr>gpio_reg := gpio_reg w OR word_of_int (pin_mask c),
                events := events w @ [GpioGet (handle c),
                                      GpioSet (handle c) (uint (gpio_reg w) OR pin_mask c),
                                      GpioGet (handle c)]\<rparr>)"
  by (simp add: set_low_def aa_gpio_get_def aa_gpio_set_def emit_def reg_set)

lemma get_state_eq:
  "get_state c w =
     (Inr (gpio_reg w AND word_of_int (pin_mask c) \<noteq> 0),
      w\<lparr>events := events w @ [GpioGet (handle c)]\<rparr>)"
  by (simp add: get_state_def aa_gpio_get_def emit_def reg_test)

lemma private_configure_gpio_eq:
  "private_configure_gpio c w =
     (Inr (), w\<lparr>direction_reg := word_of_int (pin_mask c),
                pullup_reg := 0,
                gpio_reg := gpio_reg w AND NOT (word_of_int (pin_mask c)),
                events := events w @ [GpioDirection (handle c) (pin_mask c),
                                      GpioPullup (handle c) 0,
                                      GpioGet (handle c),
                                      GpioSet (handle c) (uint (gpio_reg w) AND NOT (pin_mask c))]\<rparr>)"
  by (simp add: private_configure_gpio_def aa_gpio_direction_def aa_gpio_pullup_def
      aa_gpio_get_def aa_gpio_set_def emit_def reg_clear)

lemma private_open_eq:
  "private_open c w =
     (if adapters w = 0 then (Inl RuntimeError_no_adapters, c, emit FindDevices w)
      else if port c \<ge> adapters w
        then (Inl (ValueError_port (port c) (adapters w)), c, emit FindDevices w)
      else if open_answer w (port c) \<le> 0
        then (Inl (RuntimeError_open (port c) (open_answer w (port c))),
              c\<lparr>handle := Some (open_answer w (port c))\<rparr>,
              emit (Open (port c)) (emit FindDevices w))
      else (Inr (), c\<lparr>handle := Some (open_answer w (port c))\<rparr>,
            w\<lparr>mode_reg := 0,
              direction_reg := word_of_int (pin_mask c),
              pullup_reg := 0,
              gpio_reg := gpio_reg w AND NOT (word_of_int (pin_mask c)),
              events := events w @
                [FindDevices, Open (port c),
                 Version (Some (open_answer w (port c))),
                 Configure (Some (open_answer w (port c))) 0,
                 GpioDirection (Some (open_answer w (port c))) (pin_mask c),
                 GpioPullup (Some (open_answer w (port c))) 0,
                 GpioGet (Some (open_answer w (port c))),
                 GpioSet (Some (open_answer w (port c))) (uint (gpio_reg w) AND NOT (pin_mask c))]\<rparr>))"
  by (simp add: private_open_def private_configure_gpio_eq aa_find_devices_ext_def aa_open_def
      aa_version_def aa_configure_def AA_CONFIG_GPIO_ONLY_def emit_def Let_def)

lemma pin_selected_mask: "pin_selected c \<Longrightarrow> (word_of_int (pin_mask c) :: 8 word) \<noteq> 0"
  by (auto simp add: pin_selected_def GPIO_PINS_def pin_consts)

lemma open_sck_controller: "open_controller sck_controller"
  by (simp add: open_controller_def is_open_def pin_selected_def sck_controller_def
      GPIO_PINS_def pin_consts)

lemma mask_and_not: "((r :: 8 word) AND NOT m) AND m = 0"
  by (rule bit_eqI) (auto simp add: bit_simps)

lemma mask_or_and: "((r :: 8 word) OR m) AND m = m"
  by (rule bit_eqI) (auto simp add: bit_simps)

lemma close_closed: "handle c = None \<Longrightarrow> close c w = (Inr (), c, w)"
  by (simp add: close_def truthy_def)

section \<open>The pin selection and the constructor\<close>

lemma nat_lt_6: "i < 6 \<Longrightarrow> i = 0 \<or> i = 1 \<or> i = 2 \<or> i = 3 \<or> i = 4 \<or> i = (5::nat)"
  by arith

lemma index_of_names:
  "i < 6 \<Longrightarrow> index_of (map fst GPIO_PINS) (fst (GPIO_PINS ! i)) = Some i"
  by (drule nat_lt_6) (auto simp add: GPIO_PINS_def str_of_def)

lemma map_of_names:
  "i < 6 \<Longrightarrow> map_of GPIO_PINS (fst (GPIO_PINS ! i)) = Some (snd (GPIO_PINS ! i))"
  by (drule nat_lt_6) (auto simp add: GPIO_PINS_def str_of_def)

lemma name_in_names: "i < 6 \<Longrightarrow> fst (GPIO_PINS ! i) \<in> set (map fst GPIO_PINS)"
  by (simp add: length_GPIO_PINS)

lemma names_nth:
  "x \<in> set (map fst GPIO_PINS) \<Longrightarrow> \<exists>i<6. x = fst (GPIO_PINS ! i)"
  by (metis in_set_conv_nth length_map length_GPIO_PINS nth_map)

lemma select_pin_int:
  assumes "0 \<le> n" "n \<le> 5"
  shows "select_pin c (PinInt n) =
           Inr (c\<lparr>pin_name := fst (GPIO_PINS ! nat n), pin_mask := snd (GPIO_PINS ! nat n)\<rparr>)"
proof -
  from assms have i: "nat n < 6" by simp
  then show ?thesis using assms
    by (simp add: select_pin_def Let_def map_of_names length_GPIO_PINS)
qed

lemma select_pin_str:
  assumes "i < 6" "upper s = fst (GPIO_PINS ! i)"
  shows "select_pin c (PinStr s) =
           Inr (c\<lparr>pin_name := fst (GPIO_PINS ! i), pin_mask := snd (GPIO_PINS ! i)\<rparr>)"
  using assms name_in_names [of i] by (simp add: select_pin_def Let_def map_of_names)

lemma select_pin_valid:
  assumes "valid_selector pin"
  shows "\<exists>i<6. select_pin c pin =
           Inr (c\<lparr>pin_name := fst (GPIO_PINS ! i), pin_mask := snd (GPIO_PINS ! i)\<rparr>)"
proof (cases pin)
  case (PinInt n)
  with assms have "0 \<le> n" "n \<le> 5" by (simp_all add: valid_selector_def)
  then have "nat n < 6" by simp
  with select_pin_int [OF \<open>0 \<le> n\<close> \<open>n \<le> 5\<close>] PinInt show ?thesis by blast
next
  case (PinStr s)
  with assms have "upper s \<in> set (map fst GPIO_PINS)" by (simp add: valid_selector_def)
  then obtain i where "i < 6" "upper s = fst (GPIO_PINS ! i)" using names_nth by blast
  with select_pin_str PinStr show ?thesis by blast
next
  case PinOther
  with assms show ?thesis by (simp add: valid_selector_def)
qed

lemma select_pin_invalid:
  assumes "\<not> valid_selector pin"
  shows "\<exists>e. select_pin c pin = Inl e \<and> kind_of e = Some InvalidArgument"
  using assms by (cases pin) (auto simp add: valid_selector_def select_pin_def Let_def)

lemma init_valid:
  assumes "valid_selector pin"
  shows "\<exists>i<6. init self p pin v w =
           private_open (self\<lparr>port := p, verbose := v, handle := None,
                              pin_name := fst (GPIO_PINS ! i), pin_mask := snd (GPIO_PINS ! i),
                              pin_num := int i\<rparr>) w"
proof -
  from select_pin_valid [OF assms, of "self\<lparr>port := p, verbose := v, handle := None\<rparr>"]
  obtain i where "i < 6"
    and "select_pin (self\<lparr>port := p, verbose := v, handle := None\<rparr>) pin =
           Inr (self\<lparr>port := p, verbose := v, handle := None,
                     pin_name := fst (GPIO_PINS ! i), pin_mask := snd (GPIO_PINS ! i)\<rparr>)"
    by auto
  then show ?thesis
    by (auto simp add: init_def Let_def index_of_names intro!: exI [of _ i])
qed

lemma init_invalid:
  assumes "\<not> valid_selector pin"
  shows "\<exists>e. init self p pin v w = (Inl e, self\<lparr>port := p, verbose := v, handle := None\<rparr>, w)
             \<and> kind_of e = Some InvalidArgument"
  using select_pin_invalid [OF assms, of "self\<lparr>port := p, verbose := v, handle := None\<rparr>"]
  by (auto simp add: init_def Let_def)

lemma rejected_not_valid: "rejected_selector pin \<Longrightarrow> \<not> valid_selector pin"
  by (cases pin) (auto simp add: rejected_selector_def valid_selector_def)

lemma private_open_pin:
  "pin_name (fst (snd (private_open c w))) = pin_name c
   \<and> pin_mask (fst (snd (private_open c w))) = pin_mask c"
  by (simp add: private_open_eq)

lemma init_succeeds_iff:
  "fst (init self p pin v w) = Inr () \<longleftrightarrow>
     valid_selector pin \<and> adapters w \<noteq> 0 \<and> p < adapters w \<and> 0 < open_answer w p"
proof (cases "valid_selector pin")
  case True
  from init_valid [OF True, of self p v w] obtain i where "i < 6"
    and "init self p pin v w =
           private_open (self\<lparr>port := p, verbose := v, handle := None,
                              pin_name := fst (GPIO_PINS ! i), pin_mask := snd (GPIO_PINS ! i),
                              pin_num := int i\<rparr>) w"
    by blast
  with True show ?thesis by (auto simp add: private_open_eq)
next
  case False
  from init_invalid [OF False, of self p v w] show ?thesis using False by auto
qed

lemma init_success:
  assumes "fst (init self p pin v w) = Inr ()"
  shows "\<exists>i<6. init self p pin v w =
           (Inr (),
            \<lparr>port = p, verbose = v, handle = Some (open_answer w p),
             pin_name = fst (GPIO_PINS ! i), pin_mask = snd (GPIO_PINS ! i), pin_num = int i\<rparr>,
            w\<lparr>mode_reg := 0,
              direction_reg := word_of_int (snd (GPIO_PINS ! i)),
              pullup_reg := 0,
              gpio_reg := gpio_reg w AND NOT (word_of_int (snd (GPIO_PINS ! i))),
              events := events w @
                [FindDevices, Open p,
                 Version (Some (open_answer w p)),
                 Configure (Some (open_answer w p)) 0,
                 GpioDirection (Some (open_answer w p)) (snd (GPIO_PINS ! i)),
                 GpioPullup (Some (open_answer w p)) 0,
                 GpioGet (Some (open_answer w p)),
                 GpioSet (Some (open_answer w p)) (uint (gpio_reg w) AND NOT (snd (GPIO_PINS ! i)))]\<rparr>)"
proof -
  from assms have c: "valid_selector pin" "adapters w \<noteq> 0" "p < adapters w" "0 < open_answer w p"
    by (simp_all add: init_succeeds_iff)
  from init_valid [OF c(1), of self p v w] obtain i where "i < 6"
    and "init self p pin v w =
           private_open (self\<lparr>port := p, verbose := v, handle := None,
                              pin_name := fst (GPIO_PINS ! i), pin_mask := snd (GPIO_PINS ! i),
                              pin_num := int i\<rparr>) w"
    by blast
  with c show ?thesis
    by (auto simp add: private_open_eq intro!: exI [of _ i])
qed

lemma init_open_controller:
  assumes "init self p pin v w = (Inr (), c, w')"
  shows "open_controller c \<and> \<not> pin_bit c w'"
proof -
  from assms have ok: "fst (init self p pin v w) = Inr ()" by simp
  then have "0 < open_answer w p" by (simp add: init_succeeds_iff)
  with init_success [OF ok] assms show ?thesis
    by (auto simp add: open_controller_def is_open_def pin_selected_def pin_bit_def
        mask_and_not length_GPIO_PINS)
qed

section \<open>The concrete inputs, evaluated\<close>

lemma upper_char_small:
  "upper_char 0x73 = [0x53]" "upper_char 0x63 = [0x43]" "upper_char 0x6C = [0x4C]"
  "upper_char 0x64 = [0x44]" "upper_char 0x61 = [0x41]" "upper_char 0x6D = [0x4D]"
  "upper_char 0x69 = [0x49]" "upper_char 0x6F = [0x4F]" "upper_char 0x6B = [0x4B]"
  "upper_char 0x78 = [0x58]"
  by (simp_all add: upper_char_def upper_runs_def)

lemma upper_char_capital:
  "upper_char 0x53 = [0x53]" "upper_char 0x43 = [0x43]" "upper_char 0x4C = [0x4C]"
  "upper_char 0x44 = [0x44]" "upper_char 0x41 = [0x41]" "upper_char 0x4D = [0x4D]"
  "upper_char 0x49 = [0x49]" "upper_char 0x4F = [0x4F]" "upper_char 0x4B = [0x4B]"
  by (simp_all add: upper_char_def upper_runs_def upper_multi_def)

lemma upper_char_dotless_i: "upper_char 0x131 = [0x49]"
  by (simp add: upper_char_def upper_runs_def)

lemma upper_char_sharp_s: "upper_char 0xDF = [0x53, 0x53]"
  by (simp add: upper_char_def upper_runs_def upper_multi_def)

lemma upper_Sck: "upper (str_of ''Sck'') = str_of ''SCK''"
  by (simp add: upper_def str_of_def upper_char_small upper_char_capital)

lemma upper_dotless_miso: "upper dotless_miso = str_of ''MISO''"
  by (simp add: upper_def str_of_def dotless_miso_def upper_char_small upper_char_dotless_i)

lemma upper_sharp_s: "upper sharp_s = str_of ''SS''"
  by (simp add: upper_def str_of_def sharp_s_def upper_char_sharp_s)

lemma same_letter_upper:
  assumes "same_letter c n" "n \<in> {0x53, 0x43, 0x4C, 0x44, 0x41, 0x4D, 0x49, 0x4F, 0x4B}"
  shows "upper_char c = [n]"
  using assms by (auto simp add: same_letter_def upper_char_small upper_char_capital)

lemma names_pin_upper: "names_pin s \<Longrightarrow> upper s \<in> set (map fst GPIO_PINS)"
  by (auto simp add: names_pin_def GPIO_PINS_def str_of_def list_all2_Cons2 upper_def
      same_letter_upper)

lemma init_bench:
  "init fresh_object 0 (PinStr (str_of ''sck'')) False bench =
     (Inr (), sck_controller,
      bench\<lparr>mode_reg := 0, direction_reg := 0x08, pullup_reg := 0, gpio_reg := 0xA5,
            events := [FindDevices, Open 0, Version (Some 7), Configure (Some 7) 0,
                       GpioDirection (Some 7) 0x08, GpioPullup (Some 7) 0, GpioGet (Some 7),
                       GpioSet (Some 7) 0xA5]\<rparr>)"
  by (simp add: init_def select_pin_def upper_def upper_char_small GPIO_PINS_def pin_consts
      str_of_def Let_def private_open_eq fresh_object_def bench_def sck_controller_def)

lemma init_bench_configured:
  "init fresh_object 0 (PinStr (str_of ''sck'')) False bench = (Inr (), sck_controller, configured_bench)"
  by (simp add: configured_bench_def init_bench)

lemma configured_bench_eq:
  "configured_bench =
     bench\<lparr>mode_reg := 0, direction_reg := 0x08, pullup_reg := 0, gpio_reg := 0xA5,
           events := [FindDevices, Open 0, Version (Some 7), Configure (Some 7) 0,
                      GpioDirection (Some 7) 0x08, GpioPullup (Some 7) 0, GpioGet (Some 7),
                      GpioSet (Some 7) 0xA5]\<rparr>"
  by (simp add: configured_bench_def init_bench)

section \<open>Sequences of operations\<close>

lemma run_ops_fst: "fst (run_ops c ops w) = Inr ()"
proof (induction ops arbitrary: w)
  case Nil
  show ?case by simp
next
  case (Cons x xs)
  show ?case by (cases x) (simp_all add: set_low_eq set_high_eq Cons.IH)
qed

lemma run_op_pin_bit:
  "pin_selected c \<Longrightarrow> pin_bit c (snd (run_op c x w)) = (x = SetLow)"
  by (cases x) (simp_all add: set_low_eq set_high_eq pin_bit_def mask_and_not mask_or_and
      pin_selected_mask)

lemma run_ops_snoc: "run_ops c (ops @ [x]) w = run_op c x (snd (run_ops c ops w))"
proof (induction ops arbitrary: w)
  case Nil
  show ?case by (cases x) (simp_all add: set_low_eq set_high_eq)
next
  case (Cons y ys)
  show ?case by (cases y) (simp_all add: set_low_eq set_high_eq Cons.IH)
qed

lemma run_ops_pin_bit:
  assumes "pin_selected c" "ops \<noteq> []"
  shows "pin_bit c (snd (run_ops c ops w)) = (last ops = SetLow)"
proof -
  from assms(2) obtain ys y where "ops = ys @ [y]" by (metis rev_exhaust)
  then show ?thesis using assms(1) by (simp add: run_ops_snoc run_op_pin_bit)
qed

section \<open>Closing, and the pulse\<close>

lemma close_eq:
  "close c w =
     (if truthy (handle c) then (Inr (), c\<lparr>handle := None\<rparr>, emit (Close (handle c)) w)
      else (Inr (), c, w))"
  by (simp add: close_def aa_close_def)


lemma pin_mask_after_close: "pin_mask (fst (snd (close c w))) = pin_mask c"
  by (simp add: close_eq)

lemma pulse_eq:
  "pulse c d w =
     (if d < 0 then (Inl (ValueError_sleep d), snd (set_low c w))
      else if sleep_limit w < d then (Inl (OverflowError_sleep d), snd (set_low c w))
      else set_high c (emit (Sleep d) (snd (set_low c w))))"
  by (simp add: pulse_def set_low_eq time_sleep_ms_def)

lemma pulse_spec_eq: "pulse_spec c d w = set_high c (emit (Sleep d) (snd (set_low c w)))"
  by (simp add: pulse_spec_def set_low_eq suspend_def)




section \<open>The pin follows the last operation\<close>

text \<open>
  C1. After a constructor that returned, and after any sequence of \<^verbatim>\<open>set_low()\<close>
  and \<^verbatim>\<open>set_high()\<close> calls on the controller it built, no call raises, the physical
  bit of the pin in the GPIO register is 1 exactly when the sequence is not empty and its
  last call is \<^verbatim>\<open>set_low()\<close>, and it is 0 exactly when the sequence is empty (the pin
  was just configured) or its last call is \<^verbatim>\<open>set_high()\<close>.
\<close>

theorem pin_bit_follows_last_operation:
  assumes "init self p pin v w0 = (Inr (), c, w)"
  shows "fst (run_ops c ops w) = Inr ()
       \<and> (pin_bit c (snd (run_ops c ops w)) \<longleftrightarrow> ops \<noteq> [] \<and> last ops = SetLow)
       \<and> (\<not> pin_bit c (snd (run_ops c ops w)) \<longleftrightarrow> ops = [] \<or> last ops = SetHigh)"
proof -
  from init_open_controller [OF assms] have s: "pin_selected c" and z: "\<not> pin_bit c w"
    by (simp_all add: open_controller_def)
  have e: "last ops = SetHigh \<longleftrightarrow> last ops \<noteq> SetLow"
    by (cases "last ops") simp_all
  show ?thesis
  proof (cases "ops = []")
    case True
    with z show ?thesis by simp
  next
    case False
    with run_ops_pin_bit [OF s False, of w] e show ?thesis by (simp add: run_ops_fst)
  qed
qed

theorem pin_bit_follows_last_operation_witness:
  "init fresh_object 0 (PinStr (str_of ''sck'')) False bench = (Inr (), sck_controller, configured_bench)
   \<and> fst (run_ops sck_controller [SetHigh, SetLow] configured_bench) = Inr ()
   \<and> pin_bit sck_controller (snd (run_ops sck_controller [SetHigh, SetLow] configured_bench))
   \<and> \<not> pin_bit sck_controller (snd (run_ops sck_controller [SetLow, SetHigh] configured_bench))
   \<and> \<not> pin_bit sck_controller (snd (run_ops sck_controller [] configured_bench))"
  using pin_bit_follows_last_operation [OF init_bench_configured, of "[SetHigh, SetLow]"]
    pin_bit_follows_last_operation [OF init_bench_configured, of "[SetLow, SetHigh]"]
    pin_bit_follows_last_operation [OF init_bench_configured, of "[]"]
    init_bench_configured
  by simp

section \<open>Reading the pin back after writing it\<close>

text \<open>
  C2. On an open controller, whatever the GPIO register holds before,
  \<^verbatim>\<open>set_low()\<close> followed by \<^verbatim>\<open>get_state()\<close> returns True and
  \<^verbatim>\<open>set_high()\<close> followed by \<^verbatim>\<open>get_state()\<close> returns False.
\<close>

theorem get_state_after_set:
  assumes "open_controller c"
  shows "fst (get_state c (snd (set_low c w))) = Inr True
       \<and> fst (get_state c (snd (set_high c w))) = Inr False"
proof -
  let ?m = "word_of_int (pin_mask c) :: 8 word"
  from assms have m: "?m \<noteq> 0"
    by (simp add: open_controller_def pin_selected_mask)
  have "(gpio_reg w OR ?m) AND ?m = ?m"
    by (rule bit_eqI) (auto simp add: bit_simps)
  moreover have "(gpio_reg w AND NOT ?m) AND ?m = 0"
    by (rule bit_eqI) (auto simp add: bit_simps)
  ultimately show ?thesis using m
    by (simp add: get_state_eq set_low_eq set_high_eq)
qed

theorem get_state_after_set_witness:
  "open_controller sck_controller
   \<and> fst (get_state sck_controller (snd (set_low sck_controller bench))) = Inr True
   \<and> fst (get_state sck_controller (snd (set_high sck_controller bench))) = Inr False"
  using get_state_after_set [OF open_sck_controller, of bench] open_sck_controller by simp

section \<open>The other bits of the register\<close>

text \<open>
  C3. For every controller and every 8-bit value of the GPIO register,
  \<^verbatim>\<open>set_high()\<close> and \<^verbatim>\<open>set_low()\<close> leave every bit of the register that is not
  set in \<open>pin_mask\<close> as it was: bit \<open>n\<close> of the register is unchanged whenever bit
  \<open>n\<close> of the mask is 0.
\<close>

theorem set_keeps_other_bits:
  assumes "\<not> bit (pin_mask c) n"
  shows "bit (gpio_reg (snd (set_high c w))) n = bit (gpio_reg w) n
       \<and> bit (gpio_reg (snd (set_low c w))) n = bit (gpio_reg w) n"
  using assms by (auto simp add: set_high_eq set_low_eq bit_simps dest: bit_imp_le_length)

theorem set_keeps_other_bits_witness:
  "\<not> bit (pin_mask sck_controller) 5
   \<and> bit (gpio_reg (snd (set_high sck_controller bench))) 5 = bit (gpio_reg bench) 5
   \<and> bit (gpio_reg (snd (set_low sck_controller bench))) 5 = bit (gpio_reg bench) 5
   \<and> bit (gpio_reg bench) 5"
proof -
  have h: "\<not> bit (pin_mask sck_controller) 5"
    by (simp add: sck_controller_def bit_numeral_iff bit_iff_odd)
  have b: "bit (gpio_reg bench) 5"
    by (simp add: bench_def bit_iff_odd)
  show ?thesis using set_keeps_other_bits [OF h, of bench] h b by simp
qed

section \<open>The pin after construction\<close>

text \<open>
  C4. Whenever the constructor returns (by \<open>init_succeeds_iff\<close>: a valid selector, a
  device found, the port in range, a positive handle), whatever the GPIO register held
  before, \<^verbatim>\<open>get_state()\<close> called right after it on the new controller returns
  False.
\<close>

theorem get_state_after_construction:
  assumes "fst (init self p pin v w) = Inr ()"
  shows "fst (get_state (fst (snd (init self p pin v w))) (snd (snd (init self p pin v w))))
           = Inr False"
proof -
  obtain c w' where i: "init self p pin v w = (Inr (), c, w')"
    using assms by (metis fst_conv surj_pair)
  from init_open_controller [OF i] have "\<not> pin_bit c w'" by simp
  then show ?thesis using i by (simp add: get_state_eq pin_bit_def)
qed

theorem get_state_after_construction_witness:
  "fst (init fresh_object 0 (PinStr (str_of ''sck'')) False bench) = Inr ()
   \<and> fst (get_state (fst (snd (init fresh_object 0 (PinStr (str_of ''sck'')) False bench)))
                     (snd (snd (init fresh_object 0 (PinStr (str_of ''sck'')) False bench)))) = Inr False
   \<and> pin_bit sck_controller bench"
proof -
  have h: "fst (init fresh_object 0 (PinStr (str_of ''sck'')) False bench) = Inr ()"
    by (simp add: init_bench)
  have b: "pin_bit sck_controller bench"
    by (simp add: pin_bit_def sck_controller_def bench_def)
  show ?thesis using get_state_after_construction [OF h] h b by simp
qed

section \<open>The checks of the open\<close>

text \<open>
  C5. \<^verbatim>\<open>_open\<close> fails with DeviceNotFound when the enumeration reports zero devices,
  having made that one vendor call; otherwise with InvalidArgument when the port is not
  below the device count, still without an open call; otherwise with DeviceOpenFailed
  carrying the vendor's code when the open call returns a non-positive handle; and it
  returns normally in the one remaining case.
\<close>

theorem open_checks_in_order:
  "case private_open c w of
     (r, c', w') \<Rightarrow>
       (if adapters w = 0
          then fails_with DeviceNotFound r \<and> events w' = events w @ [FindDevices]
        else if adapters w \<le> port c
          then fails_with InvalidArgument r \<and> events w' = events w @ [FindDevices]
        else if open_answer w (port c) \<le> 0
          then fails_with (DeviceOpenFailed (open_answer w (port c))) r
             \<and> events w' = events w @ [FindDevices, Open (port c)]
        else r = Inr ())"
  by (simp add: private_open_eq fails_with_def emit_def)

theorem open_checks_in_order_witness:
  "fails_with DeviceNotFound (fst (private_open sck_controller (bench\<lparr>adapters := 0\<rparr>)))
   \<and> fails_with InvalidArgument (fst (private_open (sck_controller\<lparr>port := 1\<rparr>) bench))
   \<and> fails_with (DeviceOpenFailed (- 7))
        (fst (private_open sck_controller (bench\<lparr>open_answer := (\<lambda>p. - 7)\<rparr>)))
   \<and> fst (private_open sck_controller bench) = Inr ()"
  using open_checks_in_order [where c = sck_controller and w = "bench\<lparr>adapters := 0\<rparr>"]
    open_checks_in_order [where c = "sck_controller\<lparr>port := 1\<rparr>" and w = bench]
    open_checks_in_order [where c = sck_controller and w = "bench\<lparr>open_answer := (\<lambda>p. - 7)\<rparr>"]
    open_checks_in_order [where c = sck_controller and w = bench]
  by (simp add: bench_def sck_controller_def case_prod_unfold)

section \<open>Invalid pin selectors\<close>

text \<open>
  The claim C6 says that the constructor refuses every string that does not name one of
  SCL, SDA, MISO, SCK, MOSI, SS case-insensitively. The test of the source (lines 82-83)
  is that \<^verbatim>\<open>pin.upper()\<close> is a key of \<open>GPIO_PINS\<close>, and \<^verbatim>\<open>str.upper\<close> sends a few
  letters outside ASCII to ASCII capitals: the dotless small i to I, the sharp s to SS.
  The four-letter string \<^verbatim>\<open>m\<close>, dotless i, \<^verbatim>\<open>s\<close>, \<^verbatim>\<open>o\<close> is no letter-case form of a
  pin name, and neither is the one letter sharp s, yet the constructor takes the first
  for MISO and the second for SS: on the bench it returns normally, as it does for the
  indices 2 and 5, having enumerated, opened and configured the adapter and written the
  GPIO register.
\<close>

theorem unicode_upper_selector_counterexample:
  "\<not> names_pin dotless_miso
   \<and> \<not> names_pin sharp_s
   \<and> fst (init fresh_object 0 (PinStr dotless_miso) False bench) = Inr ()
   \<and> \<not> fails_with InvalidArgument (fst (init fresh_object 0 (PinStr dotless_miso) False bench))
   \<and> init fresh_object 0 (PinStr dotless_miso) False bench
       = init fresh_object 0 (PinInt 2) False bench
   \<and> pin_name (fst (snd (init fresh_object 0 (PinStr dotless_miso) False bench)))
       = str_of ''MISO''
   \<and> events (snd (snd (init fresh_object 0 (PinStr dotless_miso) False bench))) =
       [FindDevices, Open 0, Version (Some 7), Configure (Some 7) 0,
        GpioDirection (Some 7) 0x04, GpioPullup (Some 7) 0, GpioGet (Some 7),
        GpioSet (Some 7) 0xA9]
   \<and> gpio_reg bench = 0xAD
   \<and> gpio_reg (snd (snd (init fresh_object 0 (PinStr dotless_miso) False bench))) = 0xA9
   \<and> fst (init fresh_object 0 (PinStr sharp_s) False bench) = Inr ()
   \<and> init fresh_object 0 (PinStr sharp_s) False bench
       = init fresh_object 0 (PinInt 5) False bench
   \<and> pin_name (fst (snd (init fresh_object 0 (PinStr sharp_s) False bench))) = str_of ''SS''
   \<and> events (snd (snd (init fresh_object 0 (PinStr sharp_s) False bench))) =
       [FindDevices, Open 0, Version (Some 7), Configure (Some 7) 0,
        GpioDirection (Some 7) 0x20, GpioPullup (Some 7) 0, GpioGet (Some 7),
        GpioSet (Some 7) 0x8D]"
proof -
  have n: "\<not> names_pin dotless_miso" "\<not> names_pin sharp_s"
    by (simp_all add: names_pin_def GPIO_PINS_def str_of_def same_letter_def dotless_miso_def
        sharp_s_def)
  have m: "init fresh_object 0 (PinStr dotless_miso) False bench =
      (Inr (),
       \<lparr>port = 0, verbose = False, handle = Some 7, pin_name = str_of ''MISO'',
        pin_mask = 0x04, pin_num = 2\<rparr>,
       bench\<lparr>mode_reg := 0, direction_reg := 0x04, pullup_reg := 0, gpio_reg := 0xA9,
             events := [FindDevices, Open 0, Version (Some 7), Configure (Some 7) 0,
                        GpioDirection (Some 7) 0x04, GpioPullup (Some 7) 0, GpioGet (Some 7),
                        GpioSet (Some 7) 0xA9]\<rparr>)"
    by (simp add: init_def select_pin_def upper_dotless_miso GPIO_PINS_def pin_consts str_of_def
        Let_def private_open_eq fresh_object_def bench_def)
  have m2: "init fresh_object 0 (PinInt 2) False bench =
      init fresh_object 0 (PinStr dotless_miso) False bench"
    unfolding m
    by (simp add: init_def select_pin_def GPIO_PINS_def pin_consts str_of_def
        Let_def private_open_eq fresh_object_def bench_def)
  have t: "init fresh_object 0 (PinStr sharp_s) False bench =
      (Inr (),
       \<lparr>port = 0, verbose = False, handle = Some 7, pin_name = str_of ''SS'',
        pin_mask = 0x20, pin_num = 5\<rparr>,
       bench\<lparr>mode_reg := 0, direction_reg := 0x20, pullup_reg := 0, gpio_reg := 0x8D,
             events := [FindDevices, Open 0, Version (Some 7), Configure (Some 7) 0,
                        GpioDirection (Some 7) 0x20, GpioPullup (Some 7) 0, GpioGet (Some 7),
                        GpioSet (Some 7) 0x8D]\<rparr>)"
    by (simp add: init_def select_pin_def upper_sharp_s GPIO_PINS_def pin_consts str_of_def
        Let_def private_open_eq fresh_object_def bench_def)
  have t2: "init fresh_object 0 (PinInt 5) False bench =
      init fresh_object 0 (PinStr sharp_s) False bench"
    unfolding t
    by (simp add: init_def select_pin_def GPIO_PINS_def pin_consts str_of_def
        Let_def private_open_eq fresh_object_def bench_def)
  have b: "gpio_reg bench = 0xAD"
    by (simp add: bench_def)
  show ?thesis
    unfolding m2 t2 unfolding m t using n b by (simp add: fails_with_def)
qed

text \<open>
  C6, as amended. For a pin selector that is an integer outside 0 to 5, a string whose
  \<^verbatim>\<open>upper()\<close> is none of SCL, SDA, MISO, SCK, MOSI, SS, or a value of another type,
  the constructor fails with InvalidArgument and the world is as before: no vendor call
  was made and no register changed. The object it leaves has the handle None, so its
  destructor makes no vendor call either. By \<open>names_pin_upper\<close> no string so refused is
  a pin name in some letter case.
\<close>

theorem bad_selector_rejected_before_io:
  assumes "rejected_selector pin"
  shows "fails_with InvalidArgument (fst (init self p pin v w))
       \<and> snd (snd (init self p pin v w)) = w
       \<and> handle (fst (snd (init self p pin v w))) = None
       \<and> snd (snd (del_method (fst (snd (init self p pin v w))) w)) = w"
proof -
  from init_invalid [OF rejected_not_valid [OF assms], of self p v w]
  show ?thesis by (auto simp add: fails_with_def del_method_def close_closed)
qed

theorem bad_selector_rejected_before_io_witness:
  "rejected_selector (PinInt 6) \<and> rejected_selector (PinStr (str_of ''sx''))
   \<and> rejected_selector PinOther
   \<and> fails_with InvalidArgument (fst (init fresh_object 0 (PinInt 6) False bench))
   \<and> fails_with InvalidArgument (fst (init fresh_object 0 (PinStr (str_of ''sx'')) False bench))
   \<and> fails_with InvalidArgument (fst (init fresh_object 0 PinOther False bench))
   \<and> snd (snd (init fresh_object 0 (PinInt 6) False bench)) = bench
   \<and> snd (snd (init fresh_object 0 (PinStr (str_of ''sx'')) False bench)) = bench
   \<and> snd (snd (init fresh_object 0 PinOther False bench)) = bench"
proof -
  have a: "rejected_selector (PinInt 6)"
    by (simp add: rejected_selector_def)
  have b: "rejected_selector (PinStr (str_of ''sx''))"
    by (simp add: rejected_selector_def upper_def upper_char_small GPIO_PINS_def str_of_def)
  have c: "rejected_selector PinOther"
    by (simp add: rejected_selector_def)
  show ?thesis
    using a b c bad_selector_rejected_before_io [OF a, of fresh_object 0 False bench]
      bad_selector_rejected_before_io [OF b, of fresh_object 0 False bench]
      bad_selector_rejected_before_io [OF c, of fresh_object 0 False bench]
    by simp
qed

section \<open>An index and its name select the same pin\<close>

text \<open>
  C7. For every index \<open>i\<close> from 0 to 5 and every string whose upper-case form is the
  \<open>i\<close>-th key of \<open>GPIO_PINS\<close> (the \<open>i\<close>-th pin name in any letter case), the
  constructor does the same with the string as with the index: the same result, object
  and world, with \<open>pin_name\<close> the \<open>i\<close>-th name and \<open>pin_mask\<close> its mask.
\<close>

theorem index_and_name_select_same_pin:
  assumes "0 \<le> i" "i \<le> 5" "upper s = fst (GPIO_PINS ! nat i)"
  shows "init self p (PinStr s) v w = init self p (PinInt i) v w
       \<and> pin_name (fst (snd (init self p (PinInt i) v w))) = fst (GPIO_PINS ! nat i)
       \<and> pin_mask (fst (snd (init self p (PinInt i) v w))) = snd (GPIO_PINS ! nat i)"
proof -
  let ?c = "self\<lparr>port := p, verbose := v, handle := None\<rparr>"
  from assms have n: "nat i < 6" by simp
  have e: "select_pin ?c (PinStr s) = select_pin ?c (PinInt i)"
    by (simp add: select_pin_int [OF assms(1,2)] select_pin_str [OF n assms(3)])
  then have "init self p (PinStr s) v w = init self p (PinInt i) v w"
    by (simp add: init_def)
  moreover have "init self p (PinInt i) v w =
      private_open (?c\<lparr>pin_name := fst (GPIO_PINS ! nat i), pin_mask := snd (GPIO_PINS ! nat i),
                         pin_num := int (nat i)\<rparr>) w"
    by (simp add: init_def select_pin_int [OF assms(1,2)] index_of_names [OF n])
  ultimately show ?thesis by (simp add: private_open_pin)
qed

theorem index_and_name_select_same_pin_witness:
  "upper (str_of ''Sck'') = fst (GPIO_PINS ! nat 3)
   \<and> init fresh_object 0 (PinStr (str_of ''Sck'')) False bench
       = init fresh_object 0 (PinInt 3) False bench
   \<and> pin_name (fst (snd (init fresh_object 0 (PinInt 3) False bench))) = str_of ''SCK''
   \<and> pin_mask (fst (snd (init fresh_object 0 (PinInt 3) False bench))) = 0x08"
proof -
  have n: "nat 3 = Suc (Suc (Suc 0))" by simp
  have u: "upper (str_of ''Sck'') = fst (GPIO_PINS ! nat 3)"
    by (simp only: n upper_Sck) (simp add: GPIO_PINS_def)
  have g: "GPIO_PINS ! nat 3 = (str_of ''SCK'', 0x08)"
    by (simp only: n) (simp add: GPIO_PINS_def pin_consts)
  show ?thesis
    using index_and_name_select_same_pin
      [of 3 "str_of ''Sck''" fresh_object 0 False bench, OF _ _ u] u g
    by simp
qed

section \<open>Closing twice, and operations after close\<close>

















section \<open>The pulse\<close>

text \<open>
  The claim C9 says that for every duration \<^verbatim>\<open>pulse(d)\<close> is
  \<^verbatim>\<open>set_low()\<close>, a wait, then \<^verbatim>\<open>set_high()\<close>. For the duration -1
  \<^verbatim>\<open>time.sleep\<close> raises ValueError after \<^verbatim>\<open>set_low()\<close>, so \<^verbatim>\<open>pulse(-1)\<close>
  never calls \<^verbatim>\<open>set_high()\<close> and leaves the pin's bit set, where the sequence of the
  spec ends with the bit cleared.
\<close>

theorem pulse_negative_duration_counterexample:
  "fst (pulse sck_controller (- 1) configured_bench) = Inl (ValueError_sleep (- 1))
   \<and> fst (pulse_spec sck_controller (- 1) configured_bench) = Inr ()
   \<and> pin_bit sck_controller (snd (pulse sck_controller (- 1) configured_bench))
   \<and> \<not> pin_bit sck_controller (snd (pulse_spec sck_controller (- 1) configured_bench))
   \<and> gpio_reg (snd (pulse sck_controller (- 1) configured_bench)) = 0xAD
   \<and> gpio_reg (snd (pulse_spec sck_controller (- 1) configured_bench)) = 0xA5
   \<and> events (snd (pulse sck_controller (- 1) configured_bench)) =
       events configured_bench @ [GpioGet (Some 7), GpioSet (Some 7) 0xAD, GpioGet (Some 7)]
   \<and> events (snd (pulse_spec sck_controller (- 1) configured_bench)) =
       events configured_bench @
         [GpioGet (Some 7), GpioSet (Some 7) 0xAD, GpioGet (Some 7), Sleep (- 1),
          GpioGet (Some 7), GpioSet (Some 7) 0xA5, GpioGet (Some 7)]"
  by (simp add: pulse_eq pulse_spec_eq set_high_eq set_low_eq pin_bit_def emit_def
      configured_bench_eq sck_controller_def bench_def)

text \<open>
  C9, as amended. For every controller, every register value and every duration
  \<open>d\<close> that is not negative and not beyond what \<^verbatim>\<open>time.sleep\<close> accepts,
  \<^verbatim>\<open>pulse(d)\<close> is \<^verbatim>\<open>set_low()\<close>, a suspension of \<open>d\<close> milliseconds, then
  \<^verbatim>\<open>set_high()\<close>: the same result, the same vendor calls in the same order around
  the one sleep, and the same final register, with the pin's bit cleared.
\<close>

theorem pulse_is_set_low_wait_set_high:
  assumes "0 \<le> d" "d \<le> sleep_limit w"
  shows "pulse c d w = pulse_spec c d w
       \<and> fst (pulse c d w) = Inr ()
       \<and> events (snd (pulse c d w)) =
           events w @
             [GpioGet (handle c), GpioSet (handle c) (uint (gpio_reg w) OR pin_mask c),
              GpioGet (handle c), Sleep d,
              GpioGet (handle c),
              GpioSet (handle c) (uint (gpio_reg w OR word_of_int (pin_mask c)) AND NOT (pin_mask c)),
              GpioGet (handle c)]
       \<and> gpio_reg (snd (pulse c d w)) = gpio_reg w AND NOT (word_of_int (pin_mask c))"
proof -
  have "((gpio_reg w OR word_of_int (pin_mask c)) AND NOT (word_of_int (pin_mask c)) :: 8 word)
          = gpio_reg w AND NOT (word_of_int (pin_mask c))"
    by (rule bit_eqI) (auto simp add: bit_simps)
  with assms show ?thesis
    by (simp add: pulse_eq pulse_spec_eq set_high_eq set_low_eq emit_def)
qed

theorem pulse_is_set_low_wait_set_high_witness:
  "(0::int) \<le> 100 \<and> 100 \<le> sleep_limit configured_bench
   \<and> pulse sck_controller 100 configured_bench = pulse_spec sck_controller 100 configured_bench
   \<and> fst (pulse sck_controller 100 configured_bench) = Inr ()
   \<and> gpio_reg (snd (pulse sck_controller 100 configured_bench)) = 0xA5"
proof -
  have a: "(0::int) \<le> 100" by simp
  have b: "100 \<le> sleep_limit configured_bench"
    by (simp add: configured_bench_eq bench_def)
  have r: "gpio_reg configured_bench AND NOT (word_of_int (pin_mask sck_controller)) = 0xA5"
    by (simp add: configured_bench_eq sck_controller_def bench_def)
  note t = pulse_is_set_low_wait_set_high [OF a b, of sck_controller]
  have e: "pulse sck_controller 100 configured_bench = pulse_spec sck_controller 100 configured_bench"
    using t by (rule conjunct1)
  have f: "fst (pulse sck_controller 100 configured_bench) = Inr ()"
    using t by blast
  have g0: "gpio_reg (snd (pulse sck_controller 100 configured_bench)) =
              gpio_reg configured_bench AND NOT (word_of_int (pin_mask sck_controller))"
    using t by blast
  have g: "gpio_reg (snd (pulse sck_controller 100 configured_bench)) = 0xA5"
    by (rule trans [OF g0 r])
  show ?thesis
    by (intro conjI) (fact a, fact b, fact e, fact f, fact g)
qed

section \<open>The handle after a failed open\<close>

text \<open>
  C10. When the selector is valid, a device is found, the port is in range and the
  vendor's open call returns a non-positive value, the constructor raises its
  open-failure error with that value stored in \<open>handle\<close>, after the two vendor calls
  of enumeration and open. A \<^verbatim>\<open>close()\<close> on that object, which is all that
  \<^verbatim>\<open>__exit__\<close> and \<^verbatim>\<open>__del__\<close> do, passes a negative handle to the vendor's
  close call and sets \<open>handle\<close> to None; only for the value 0 does it make no call.
\<close>

theorem failed_open_keeps_handle:
  assumes "valid_selector pin" "adapters w \<noteq> 0" "p < adapters w" "open_answer w p \<le> 0"
  shows "let r = init self p pin v w; c = fst (snd r); w' = snd (snd r); h = open_answer w p in
           fst r = Inl (RuntimeError_open p h)
         \<and> fails_with (DeviceOpenFailed h) (fst r)
         \<and> handle c = Some h
         \<and> events w' = events w @ [FindDevices, Open p]
         \<and> close c w' =
             (if h = 0 then (Inr (), c, w')
              else (Inr (), c\<lparr>handle := None\<rparr>, emit (Close (Some h)) w'))
         \<and> exit_method c w' = close c w'
         \<and> del_method c w' = close c w'"
proof -
  from init_valid [OF assms(1), of self p v w] obtain i where "i < 6"
    and "init self p pin v w =
           private_open (self\<lparr>port := p, verbose := v, handle := None,
                              pin_name := fst (GPIO_PINS ! i), pin_mask := snd (GPIO_PINS ! i),
                              pin_num := int i\<rparr>) w"
    by blast
  with assms(2-4) show ?thesis
    by (simp add: private_open_eq Let_def fails_with_def close_def truthy_def aa_close_def
        exit_method_def del_method_def emit_def)
qed

theorem failed_open_keeps_handle_witness:
  "valid_selector (PinInt 3)
   \<and> fst (init fresh_object 0 (PinInt 3) False (bench\<lparr>open_answer := (\<lambda>p. - 7)\<rparr>))
       = Inl (RuntimeError_open 0 (- 7))
   \<and> handle (fst (snd (init fresh_object 0 (PinInt 3) False (bench\<lparr>open_answer := (\<lambda>p. - 7)\<rparr>))))
       = Some (- 7)
   \<and> events (snd (snd (del_method
         (fst (snd (init fresh_object 0 (PinInt 3) False (bench\<lparr>open_answer := (\<lambda>p. - 7)\<rparr>))))
         (snd (snd (init fresh_object 0 (PinInt 3) False (bench\<lparr>open_answer := (\<lambda>p. - 7)\<rparr>)))))))
       = [FindDevices, Open 0, Close (Some (- 7))]"
proof -
  have s: "valid_selector (PinInt 3)"
    by (simp add: valid_selector_def)
  have a: "adapters (bench\<lparr>open_answer := (\<lambda>p. - 7)\<rparr>) \<noteq> 0"
    and b: "0 < adapters (bench\<lparr>open_answer := (\<lambda>p. - 7)\<rparr>)"
    and c: "open_answer (bench\<lparr>open_answer := (\<lambda>p. - 7)\<rparr>) 0 \<le> 0"
    by (simp_all add: bench_def)
  show ?thesis
    using failed_open_keeps_handle [OF s a b c, of fresh_object False] s
    by (simp add: Let_def emit_def bench_def)
qed

end
